theory Spec2Isabelle
  imports Complex_Main
begin

section \<open>Inventory service (services/inventory_service.py)\<close>

text \<open>
  The service is embedded as it is written in the SQLite setup guide
  (\<^verbatim>\<open>class InventoryService\<close>, methods \<^verbatim>\<open>add_item\<close>, \<^verbatim>\<open>get_items\<close>,
  \<^verbatim>\<open>get_item\<close>, \<^verbatim>\<open>update_item\<close>, \<^verbatim>\<open>delete_item\<close>), over the \<^verbatim>\<open>Product\<close>
  model of the same guide, which maps nine columns.

  A value that arrives in a JSON body is of an arbitrary type \<open>'v\<close>; an attribute holds
  \<open>'v option\<close>, where \<open>None\<close> is Python's \<^verbatim>\<open>None\<close> (SQL \<^verbatim>\<open>NULL\<close>). Values are stored
  and read back as they are: the conversions of SQLite's column affinities are not part
  of the model.
\<close>

subsection \<open>The Product model (models.py)\<close>

record 'v ProductModel =
  id' :: "'v option"
  name :: "'v option"
  category :: "'v option"
  quantity :: "'v option"
  unit :: "'v option"
  expirationDate :: "'v option"
  supplier :: "'v option"
  price :: "'v option"
  sku :: "'v option"

text \<open>A Python dict in insertion order: request bodies and serialised items.\<close>

type_synonym 'v dict = "(string \<times> 'v option) list"

text \<open>The mapped attributes of the class, in the order of their declaration.\<close>

definition columns :: "string list" where
  "columns = [''id'', ''name'', ''category'', ''quantity'', ''unit'', ''expirationDate'',
     ''supplier'', ''price'', ''sku'']"

text \<open>
  The keys of a request body are the fields of the client's \<^verbatim>\<open>Product\<close> interface
  (App.tsx), of which the model maps nine.
\<close>

definition product_fields :: "string list" where
  "product_fields = [''id'', ''name'', ''category'', ''quantity'', ''unit'', ''reorderLevel'',
     ''expirationDate'', ''batchNumber'', ''supplier'', ''price'', ''sku'']"

text \<open>
  \<^verbatim>\<open>hasattr(product, key)\<close> and \<^verbatim>\<open>setattr(product, key, value)\<close>. Only the mapped
  attributes are modelled: \<open>hasattr\<close> holds of the nine column names and of nothing else.
  In Python it holds as well of what every instance has beside its columns
  (\<^verbatim>\<open>__class__\<close>, \<^verbatim>\<open>__dict__\<close>, \<^verbatim>\<open>metadata\<close>, \<^verbatim>\<open>registry\<close>, \<^verbatim>\<open>__tablename__\<close>,
  \<^verbatim>\<open>_sa_instance_state\<close> and the like), and \<^verbatim>\<open>setattr\<close> on such a name may raise. That
  belongs to the runtime and is outside the model: the model stands for request bodies
  whose keys are among \<open>product_fields\<close>, where \<open>hasattr\<close> is as in Python, and the
  properties of the service below are read for such bodies.
\<close>

definition hasattr :: "'v ProductModel \<Rightarrow> string \<Rightarrow> bool" where
  "hasattr product key = (key \<in> set columns)"

definition setattr :: "'v ProductModel \<Rightarrow> string \<Rightarrow> 'v option \<Rightarrow> 'v ProductModel" where
  "setattr product key val =
    (if key = ''id'' then product\<lparr>ProductModel.id' := val\<rparr>
     else if key = ''name'' then product\<lparr>ProductModel.name := val\<rparr>
     else if key = ''category'' then product\<lparr>ProductModel.category := val\<rparr>
     else if key = ''quantity'' then product\<lparr>ProductModel.quantity := val\<rparr>
     else if key = ''unit'' then product\<lparr>ProductModel.unit := val\<rparr>
     else if key = ''expirationDate'' then product\<lparr>ProductModel.expirationDate := val\<rparr>
     else if key = ''supplier'' then product\<lparr>ProductModel.supplier := val\<rparr>
     else if key = ''price'' then product\<lparr>ProductModel.price := val\<rparr>
     else if key = ''sku'' then product\<lparr>ProductModel.sku := val\<rparr>
     else product)"

text \<open>
  The exceptions a method can let escape to its caller: the model's constructor raises
  \<^verbatim>\<open>TypeError\<close> on a keyword that is no attribute of the class, and a commit raises
  \<^verbatim>\<open>IntegrityError\<close> when the primary key is null or already taken.
\<close>

datatype error = TypeError | IntegrityError

text \<open>
  \<^verbatim>\<open>Product(**data)\<close>: the declarative constructor starts from an instance whose
  attributes are all \<^verbatim>\<open>None\<close> and sets each keyword in turn, raising on the first
  keyword that the class does not have.
\<close>

definition Product_blank :: "'v ProductModel" where
  "Product_blank = \<lparr>ProductModel.id' = None, name = None, category = None, quantity = None,
     unit = None, expirationDate = None, supplier = None, price = None, sku = None\<rparr>"

fun Product_kwargs :: "'v ProductModel \<Rightarrow> 'v dict \<Rightarrow> error + 'v ProductModel" where
  "Product_kwargs self [] = Inr self"
| "Product_kwargs self ((k, v) # kwargs) =
    (if \<not> hasattr self k then Inl TypeError
     else Product_kwargs (setattr self k v) kwargs)"

definition Product_init :: "'v dict \<Rightarrow> error + 'v ProductModel" where
  "Product_init data = Product_kwargs Product_blank data"

text \<open>The dict literal that every method builds from a product.\<close>

definition to_dict :: "'v ProductModel \<Rightarrow> 'v dict" where
  "to_dict product =
    [(''id'', ProductModel.id' product),
     (''name'', ProductModel.name product),
     (''category'', ProductModel.category product),
     (''quantity'', ProductModel.quantity product),
     (''unit'', ProductModel.unit product),
     (''expirationDate'', ProductModel.expirationDate product),
     (''supplier'', ProductModel.supplier product),
     (''price'', ProductModel.price product),
     (''sku'', ProductModel.sku product)]"

subsection \<open>The session over the products table\<close>

text \<open>
  The state of the service is the content of the \<^verbatim>\<open>products\<close> table, a list of rows in
  insertion order. Each method runs its query and its commit before it returns. A commit
  that fails leaves the table as it was and raises; what the session still holds pending
  after an exception that no handler rolled back is no part of the model.
\<close>

type_synonym 'v table = "'v ProductModel list"

text \<open>\<^verbatim>\<open>self.session.query(Product).filter(Product.id == item_id).first()\<close>\<close>

definition query_first :: "'v table \<Rightarrow> 'v \<Rightarrow> 'v ProductModel option" where
  "query_first tbl item_id = find (\<lambda>p. ProductModel.id' p = Some item_id) tbl"

text \<open>\<^verbatim>\<open>session.add(product); session.commit()\<close>: an INSERT under the primary key.\<close>

definition commit_add :: "'v table \<Rightarrow> 'v ProductModel \<Rightarrow> error + 'v table" where
  "commit_add tbl product =
    (if ProductModel.id' product = None then Inl IntegrityError
     else if ProductModel.id' product \<in> set (map ProductModel.id' tbl) then Inl IntegrityError
     else Inr (tbl @ [product]))"

text \<open>\<^verbatim>\<open>session.refresh(product)\<close>: the attributes are read again from the row of the
  product's primary key.\<close>

definition refresh :: "'v table \<Rightarrow> 'v ProductModel \<Rightarrow> 'v ProductModel" where
  "refresh tbl product =
    (case find (\<lambda>p. ProductModel.id' p = ProductModel.id' product) tbl of
       None \<Rightarrow> product
     | Some row \<Rightarrow> row)"

text \<open>
  \<^verbatim>\<open>session.commit()\<close> after the attributes of the row loaded under \<open>item_id\<close> were
  set: an UPDATE of that row. When the primary key itself was changed, the new key must
  be non-null and free.
\<close>

definition commit_update :: "'v table \<Rightarrow> 'v \<Rightarrow> 'v ProductModel \<Rightarrow> error + 'v table" where
  "commit_update tbl item_id product =
    (if ProductModel.id' product = Some item_id
     then Inr (map (\<lambda>row. if ProductModel.id' row = Some item_id then product else row) tbl)
     else if ProductModel.id' product = None then Inl IntegrityError
     else if ProductModel.id' product \<in> set (map ProductModel.id' tbl) then Inl IntegrityError
     else Inr (map (\<lambda>row. if ProductModel.id' row = Some item_id then product else row) tbl))"

text \<open>\<^verbatim>\<open>session.delete(product); session.commit()\<close>: a DELETE under the primary key.\<close>

definition commit_delete :: "'v table \<Rightarrow> 'v \<Rightarrow> 'v table" where
  "commit_delete tbl item_id = filter (\<lambda>row. ProductModel.id' row \<noteq> Some item_id) tbl"

subsection \<open>The methods of InventoryService\<close>

text \<open>
  A method returns a dict with a \<^verbatim>\<open>message\<close> and, for add and update, an \<^verbatim>\<open>item\<close>;
  \<open>ErrorDict\<close> is the dict \<^verbatim>\<open>{'error': str(e)}\<close> of the corrected service below.
  Each method takes the table and returns its result with the table after the call; an
  exception that the method does not catch is the \<open>Inl\<close> result.
\<close>

datatype 'v reply = Message string | MessageItem string "'v dict" | ErrorDict error

definition add_item :: "'v table \<Rightarrow> 'v dict \<Rightarrow> (error + 'v reply) \<times> 'v table" where
  "add_item tbl data =
    (case Product_init data of
       Inl e \<Rightarrow> (Inl e, tbl)
     | Inr product \<Rightarrow>
         (case commit_add tbl product of
            Inl e \<Rightarrow> (Inl e, tbl)
          | Inr tbl' \<Rightarrow>
              (Inr (MessageItem ''Item added'' (to_dict (refresh tbl' product))), tbl')))"

definition get_items :: "'v table \<Rightarrow> 'v dict list" where
  "get_items tbl = map to_dict tbl"

definition get_item :: "'v table \<Rightarrow> 'v \<Rightarrow> 'v dict option" where
  "get_item tbl item_id =
    (case query_first tbl item_id of
       None \<Rightarrow> None
     | Some product \<Rightarrow> Some (to_dict product))"

text \<open>The loop of \<^verbatim>\<open>update_item\<close> over \<^verbatim>\<open>data.items()\<close>.\<close>

fun update_attributes :: "'v ProductModel \<Rightarrow> 'v dict \<Rightarrow> 'v ProductModel" where
  "update_attributes product [] = product"
| "update_attributes product ((key, val) # items) =
    update_attributes (if hasattr product key then setattr product key val else product) items"

definition update_item :: "'v table \<Rightarrow> 'v \<Rightarrow> 'v dict \<Rightarrow> (error + 'v reply) \<times> 'v table" where
  "update_item tbl item_id data =
    (case query_first tbl item_id of
       None \<Rightarrow> (Inr (Message ''Item not found''), tbl)
     | Some product \<Rightarrow>
         (case commit_update tbl item_id (update_attributes product data) of
            Inl e \<Rightarrow> (Inl e, tbl)
          | Inr tbl' \<Rightarrow>
              (Inr (MessageItem ''Item updated'' (to_dict (update_attributes product data))),
               tbl')))"

definition delete_item :: "'v table \<Rightarrow> 'v \<Rightarrow> (error + 'v reply) \<times> 'v table" where
  "delete_item tbl item_id =
    (case query_first tbl item_id of
       None \<Rightarrow> (Inr (Message ''Item not found''), tbl)
     | Some product \<Rightarrow> (Inr (Message ''Item deleted''), commit_delete tbl item_id))"

text \<open>
  The primary-key constraint of the table: no key is null and no key occurs twice.
\<close>

definition primary_key_ok :: "'v table \<Rightarrow> bool" where
  "primary_key_ok tbl =
    (None \<notin> set (map ProductModel.id' tbl) \<and> distinct (map ProductModel.id' tbl))"

subsection \<open>The corrected service of the system documentation\<close>

text \<open>
  The system documentation gives a second version of the service (``inventory_service.py
  (FIXED VERSION)''). Its \<^verbatim>\<open>add_item\<close> reads the nine keys with \<^verbatim>\<open>data.get\<close> and wraps
  the commit in \<^verbatim>\<open>try\<close> / \<^verbatim>\<open>except Exception\<close>, which rolls back and returns the error
  dict; its \<^verbatim>\<open>update_item\<close> skips the key \<^verbatim>\<open>id\<close>. No exception leaves these methods.
\<close>

definition dict_get :: "'v dict \<Rightarrow> string \<Rightarrow> 'v option" where
  "dict_get data key = (case map_of data key of None \<Rightarrow> None | Some val \<Rightarrow> val)"

definition add_item_fixed :: "'v table \<Rightarrow> 'v dict \<Rightarrow> 'v reply \<times> 'v table" where
  "add_item_fixed tbl data =
    (let product =
       \<lparr>ProductModel.id' = dict_get data ''id'',
        name = dict_get data ''name'',
        category = dict_get data ''category'',
        quantity = dict_get data ''quantity'',
        unit = dict_get data ''unit'',
        expirationDate = dict_get data ''expirationDate'',
        supplier = dict_get data ''supplier'',
        price = dict_get data ''price'',
        sku = dict_get data ''sku''\<rparr>
     in case commit_add tbl product of
          Inl e \<Rightarrow> (ErrorDict e, tbl)
        | Inr tbl' \<Rightarrow> (MessageItem ''Item added'' (to_dict (refresh tbl' product)), tbl'))"

fun update_attributes_fixed :: "'v ProductModel \<Rightarrow> 'v dict \<Rightarrow> 'v ProductModel" where
  "update_attributes_fixed product [] = product"
| "update_attributes_fixed product ((key, val) # items) =
    update_attributes_fixed
      (if hasattr product key \<and> key \<noteq> ''id'' then setattr product key val else product) items"

definition update_item_fixed :: "'v table \<Rightarrow> 'v \<Rightarrow> 'v dict \<Rightarrow> 'v reply \<times> 'v table" where
  "update_item_fixed tbl item_id data =
    (case query_first tbl item_id of
       None \<Rightarrow> (Message ''Item not found'', tbl)
     | Some product \<Rightarrow>
         (case commit_update tbl item_id (update_attributes_fixed product data) of
            Inl e \<Rightarrow> (ErrorDict e, tbl)
          | Inr tbl' \<Rightarrow>
              (MessageItem ''Item updated'' (to_dict (update_attributes_fixed product data)),
               tbl')))"

subsection \<open>Sample requests\<close>

text \<open>
  Concrete JSON values for the examples: strings, numbers (read as reals, so that no
  rounding takes part) and booleans.
\<close>

datatype json = JString string | JNumber real | JBool bool

text \<open>A request body that names exactly the nine mapped columns.\<close>

definition widget_columns :: "json dict" where
  "widget_columns =
    [(''id'', Some (JString ''P1'')),
     (''name'', Some (JString ''Widget'')),
     (''category'', Some (JString ''Vitamins'')),
     (''quantity'', Some (JNumber 10)),
     (''unit'', Some (JString ''bottles'')),
     (''expirationDate'', Some (JString ''2026-01-01'')),
     (''supplier'', Some (JString ''Acme'')),
     (''price'', Some (JNumber 5)),
     (''sku'', Some (JString ''W-1''))]"

text \<open>The row that this body creates.\<close>

definition widget_row :: "json ProductModel" where
  "widget_row =
    \<lparr>ProductModel.id' = Some (JString ''P1''),
     name = Some (JString ''Widget''),
     category = Some (JString ''Vitamins''),
     quantity = Some (JNumber 10),
     unit = Some (JString ''bottles''),
     expirationDate = Some (JString ''2026-01-01''),
     supplier = Some (JString ''Acme''),
     price = Some (JNumber 5),
     sku = Some (JString ''W-1'')\<rparr>"

text \<open>A second row, under another key.\<close>

definition gadget_row :: "json ProductModel" where
  "gadget_row =
    \<lparr>ProductModel.id' = Some (JString ''P2''),
     name = Some (JString ''Gadget''),
     category = Some (JString ''Minerals''),
     quantity = Some (JNumber 3),
     unit = Some (JString ''boxes''),
     expirationDate = Some (JString ''2026-06-30''),
     supplier = Some (JString ''Bolt''),
     price = Some (JNumber 12),
     sku = Some (JString ''G-7'')\<rparr>"

text \<open>
  A request body with every field of the client's \<^verbatim>\<open>Product\<close> interface (App.tsx),
  in the order of the interface: the nine columns and \<^verbatim>\<open>reorderLevel\<close>,
  \<^verbatim>\<open>batchNumber\<close>.
\<close>

definition widget_product :: "json dict" where
  "widget_product =
    [(''id'', Some (JString ''P1'')),
     (''name'', Some (JString ''Widget'')),
     (''category'', Some (JString ''Vitamins'')),
     (''quantity'', Some (JNumber 10)),
     (''unit'', Some (JString ''bottles'')),
     (''reorderLevel'', Some (JNumber 20)),
     (''expirationDate'', Some (JString ''2026-01-01'')),
     (''batchNumber'', Some (JString ''B-1'')),
     (''supplier'', Some (JString ''Acme'')),
     (''price'', Some (JNumber 5)),
     (''sku'', Some (JString ''W-1''))]"

text \<open>A request body that reuses the key of \<open>widget_row\<close> for another product.\<close>

definition duplicate_columns :: "json dict" where
  "duplicate_columns =
    [(''id'', Some (JString ''P1'')),
     (''name'', Some (JString ''Impostor'')),
     (''category'', Some (JString ''Herbs'')),
     (''quantity'', Some (JNumber 1)),
     (''unit'', Some (JString ''bags'')),
     (''expirationDate'', Some (JString ''2027-03-15'')),
     (''supplier'', Some (JString ''Crux'')),
     (''price'', Some (JNumber 2)),
     (''sku'', Some (JString ''I-9''))]"

section \<open>The client (App.tsx, components/Dashboard.tsx)\<close>

subsection \<open>The Product interface\<close>

text \<open>
  \<^verbatim>\<open>Omit<Product, 'id'>\<close> is the record of the ten fields but \<^verbatim>\<open>id\<close>, and
  \<^verbatim>\<open>Product\<close> extends it by \<^verbatim>\<open>id\<close>. The numbers \<^verbatim>\<open>quantity\<close> and
  \<^verbatim>\<open>reorderLevel\<close> hold integers, in the range where a JavaScript number is exact.
\<close>

record ProductFields =
  name :: string
  category :: string
  quantity :: int
  unit :: string
  reorderLevel :: int
  expirationDate :: string
  batchNumber :: string
  supplier :: string
  price :: real
  sku :: string

record Product = ProductFields +
  id' :: string

subsection \<open>The state of App and its handlers\<close>

datatype View = dashboard | inventory | purchase_orders | damaged_returns | settings

record App =
  products :: "Product list"
  currentView :: View
  isAddModalOpen :: bool

text \<open>
  A call of \<^verbatim>\<open>fetch\<close>, by its method and URL. A handler returns the state it sets and
  the calls it issues, in order. The one call in App.tsx is the load of the list on mount.
\<close>

datatype fetch = Fetch string string

definition useEffect_load :: "fetch list" where
  "useEffect_load = [Fetch ''GET'' ''http://localhost:5000/api/items'']"

text \<open>\<^verbatim>\<open>.then(data => setProducts(data))\<close>, and \<^verbatim>\<open>.catch\<close> on a failure (\<open>None\<close>), which
  only logs.\<close>

definition useEffect_loaded :: "App \<Rightarrow> Product list option \<Rightarrow> App" where
  "useEffect_loaded app response =
    (case response of None \<Rightarrow> app | Some data \<Rightarrow> app\<lparr>products := data\<rparr>)"

text \<open>\<^verbatim>\<open>Number.prototype.toString\<close> on a non-negative integer: its decimal digits.\<close>

fun toString :: "nat \<Rightarrow> string" where
  "toString n =
    (if n < 10 then [''0123456789'' ! n]
     else toString (n div 10) @ [''0123456789'' ! (n mod 10)])"

declare toString.simps [simp del]

text \<open>\<^verbatim>\<open>handleAddProduct\<close>; \<open>now\<close> is the value of \<^verbatim>\<open>Date.now()\<close>.\<close>

definition handleAddProduct :: "nat \<Rightarrow> App \<Rightarrow> ProductFields \<Rightarrow> App \<times> fetch list" where
  "handleAddProduct now app product =
    (let newProduct =
       \<lparr>name = name product, category = category product, quantity = quantity product,
        unit = unit product, reorderLevel = reorderLevel product,
        expirationDate = expirationDate product, batchNumber = batchNumber product,
        supplier = supplier product, price = price product, sku = sku product,
        id' = toString now\<rparr>
     in (app\<lparr>products := products app @ [newProduct], isAddModalOpen := False\<rparr>, []))"

definition handleDeleteProduct :: "App \<Rightarrow> string \<Rightarrow> App \<times> fetch list" where
  "handleDeleteProduct app ident =
    (app\<lparr>products := filter (\<lambda>p. id' p \<noteq> ident) (products app)\<rparr>, [])"

definition handleUpdateProduct :: "App \<Rightarrow> Product \<Rightarrow> App \<times> fetch list" where
  "handleUpdateProduct app updatedProduct =
    (app\<lparr>products := map (\<lambda>p. if id' p = id' updatedProduct then updatedProduct else p)
       (products app)\<rparr>, [])"

text \<open>
  The delete guide replaces \<^verbatim>\<open>handleDeleteProduct\<close> by a handler that first awaits
  \<^verbatim>\<open>fetch(..., {method: 'DELETE'})\<close> and filters the list only under \<^verbatim>\<open>response.ok\<close>.
  The outcome of the call is the value of \<^verbatim>\<open>response.ok\<close>, or a rejected promise.
\<close>

datatype outcome = Response bool | Rejected

definition handleDeleteProduct_api :: "App \<Rightarrow> string \<Rightarrow> outcome \<Rightarrow> App \<times> fetch list" where
  "handleDeleteProduct_api app ident result =
    (let call = Fetch ''DELETE'' (''http://localhost:5000/api/items/'' @ ident)
     in case result of
          Response ok \<Rightarrow>
            if ok then (app\<lparr>products := filter (\<lambda>p. id' p \<noteq> ident) (products app)\<rparr>, [call])
            else (app, [call])
        | Rejected \<Rightarrow> (app, [call]))"

subsection \<open>The derived sets of the dashboard\<close>

definition lowStockItems :: "Product list \<Rightarrow> Product list" where
  "lowStockItems prods = filter (\<lambda>p. quantity p \<le> reorderLevel p) prods"

text \<open>
  \<^verbatim>\<open>new Date(p.expirationDate).getTime()\<close> is a parameter, \<open>getTime\<close>: the milliseconds
  since the epoch that the runtime reads from the string, or \<open>None\<close> for an invalid date
  (\<^verbatim>\<open>NaN\<close>, which fails both comparisons). \<open>today\<close> is \<^verbatim>\<open>today.getTime()\<close>.
  \<^verbatim>\<open>Math.floor\<close> of the quotient is \<open>div\<close> on integers, which rounds down.
\<close>

definition msPerDay :: int where
  "msPerDay = 1000 * 60 * 60 * 24"

definition daysUntilExpiration :: "int \<Rightarrow> int \<Rightarrow> int" where
  "daysUntilExpiration expirationTime today = (expirationTime - today) div msPerDay"

definition expiringSoon :: "(string \<Rightarrow> int option) \<Rightarrow> int \<Rightarrow> Product list \<Rightarrow> Product list" where
  "expiringSoon getTime today prods =
    filter (\<lambda>p. case getTime (expirationDate p) of
                  None \<Rightarrow> False
                | Some expirationTime \<Rightarrow>
                    daysUntilExpiration expirationTime today \<le> 90
                    \<and> daysUntilExpiration expirationTime today > 0) prods"

subsection \<open>Sample products\<close>

definition whey :: Product where
  "whey = \<lparr>name = ''Whey Protein'', category = ''Protein'', quantity = 20, unit = ''tubs'',
     reorderLevel = 20, expirationDate = ''2026-04-01'', batchNumber = ''B-100'',
     supplier = ''NutriCo'', price = 30, sku = ''WP-1'', id' = ''1''\<rparr>"

definition zinc :: Product where
  "zinc = \<lparr>name = ''Zinc'', category = ''Minerals'', quantity = 21, unit = ''bottles'',
     reorderLevel = 20, expirationDate = ''2026-04-02'', batchNumber = ''B-200'',
     supplier = ''MinCo'', price = 8, sku = ''ZN-1'', id' = ''2''\<rparr>"

definition omega :: ProductFields where
  "omega = \<lparr>name = ''Omega 3'', category = ''Oils'', quantity = 5, unit = ''bottles'',
     reorderLevel = 10, expirationDate = ''2025-12-31'', batchNumber = ''B-300'',
     supplier = ''SeaCo'', price = 15, sku = ''OM-3''\<rparr>"

definition app_two :: App where
  "app_two = \<lparr>products = [whey, zinc], currentView = inventory, isAddModalOpen = True\<rparr>"




section \<open>Properties of the inventory service\<close>

subsection \<open>Attributes and dicts\<close>

text \<open>
  The serialised item of a product is a dict over the nine columns, and it determines the
  product. Setting a column changes that key of the dict and no other.
\<close>

lemma map_of_to_dict_setattr:
  "key \<in> set columns \<Longrightarrow> map_of (to_dict (setattr p key v)) = (map_of (to_dict p))(key \<mapsto> v)"
  unfolding columns_def
  apply simp
  apply (elim disjE)
  apply (simp_all add: setattr_def to_dict_def fun_eq_iff)
  done

lemma overlay_step_in:
  "k \<in> C \<Longrightarrow> n k = None \<Longrightarrow> m(k \<mapsto> v) ++ (n |` C) = m ++ ((n(k \<mapsto> v)) |` C)"
  by (auto simp add: fun_eq_iff map_add_def restrict_map_def split: option.splits)

lemma overlay_step_out:
  "k \<notin> C \<Longrightarrow> m ++ (n |` C) = m ++ ((n(k \<mapsto> v)) |` C)"
  by (auto simp add: fun_eq_iff map_add_def restrict_map_def split: option.splits)

lemma map_of_update_attributes:
  "distinct (map fst data) \<Longrightarrow>
     map_of (to_dict (update_attributes p data)) = map_of (to_dict p) ++ (map_of data |` set columns)"
proof (induction data arbitrary: p)
  case Nil
  then show ?case by simp
next
  case (Cons kv data)
  obtain k v where kv: "kv = (k, v)" by (cases kv)
  from Cons.prems kv have d: "distinct (map fst data)" and k: "k \<notin> fst ` set data" by auto
  from k have nk: "map_of data k = None" by (simp add: map_of_eq_None_iff)
  have cons: "map_of (kv # data) = (map_of data)(k \<mapsto> v)" by (simp add: kv)
  show ?case
  proof (cases "k \<in> set columns")
    case True
    have "update_attributes p (kv # data) = update_attributes (setattr p k v) data"
      using True by (simp add: kv hasattr_def)
    then have "map_of (to_dict (update_attributes p (kv # data))) =
      map_of (to_dict (setattr p k v)) ++ (map_of data |` set columns)"
      using Cons.IH [OF d, of "setattr p k v"] by (simp only:)
    also have "\<dots> = (map_of (to_dict p))(k \<mapsto> v) ++ (map_of data |` set columns)"
      by (simp only: map_of_to_dict_setattr [OF True])
    also have "\<dots> = map_of (to_dict p) ++ (map_of (kv # data) |` set columns)"
      unfolding cons using True nk by (rule overlay_step_in [where n = "map_of data"])
    finally show ?thesis .
  next
    case False
    have "update_attributes p (kv # data) = update_attributes p data"
      using False by (simp add: kv hasattr_def)
    then have "map_of (to_dict (update_attributes p (kv # data))) =
      map_of (to_dict p) ++ (map_of data |` set columns)"
      using Cons.IH [OF d, of p] by (simp only:)
    also have "\<dots> = map_of (to_dict p) ++ (map_of (kv # data) |` set columns)"
      unfolding cons by (rule overlay_step_out [OF False])
    finally show ?thesis .
  qed
qed

lemma to_dict_inject: "map_of (to_dict p) = map_of (to_dict q) \<Longrightarrow> p = q"
proof -
  assume e: "map_of (to_dict p) = map_of (to_dict q)"
  have "\<And>c. map_of (to_dict p) c = map_of (to_dict q) c" using e by simp
  note at = this
  have "ProductModel.id' p = ProductModel.id' q"
    using at [of "''id''"] by (simp add: to_dict_def)
  moreover have "ProductModel.name p = ProductModel.name q"
    using at [of "''name''"] by (simp add: to_dict_def)
  moreover have "ProductModel.category p = ProductModel.category q"
    using at [of "''category''"] by (simp add: to_dict_def)
  moreover have "ProductModel.quantity p = ProductModel.quantity q"
    using at [of "''quantity''"] by (simp add: to_dict_def)
  moreover have "ProductModel.unit p = ProductModel.unit q"
    using at [of "''unit''"] by (simp add: to_dict_def)
  moreover have "ProductModel.expirationDate p = ProductModel.expirationDate q"
    using at [of "''expirationDate''"] by (simp add: to_dict_def)
  moreover have "ProductModel.supplier p = ProductModel.supplier q"
    using at [of "''supplier''"] by (simp add: to_dict_def)
  moreover have "ProductModel.price p = ProductModel.price q"
    using at [of "''price''"] by (simp add: to_dict_def)
  moreover have "ProductModel.sku p = ProductModel.sku q"
    using at [of "''sku''"] by (simp add: to_dict_def)
  ultimately show "p = q" by simp
qed

lemma id'_of_to_dict: "map_of (to_dict p) ''id'' = Some (ProductModel.id' p)"
  by (simp add: to_dict_def)

lemma map_fst_to_dict: "map fst (to_dict p) = columns"
  by (simp add: to_dict_def columns_def)

subsection \<open>Create, then get\<close>

text \<open>
  On the nine columns the service round-trips: a body that names exactly the nine columns,
  under a key that is not null and not in the table, is stored, and the get by its key
  returns it as it was sent.
\<close>

lemma Product_kwargs_columns:
  "set (map fst data) \<subseteq> set columns \<Longrightarrow> Product_kwargs p data = Inr (update_attributes p data)"
  by (induction data arbitrary: p) (auto simp add: hasattr_def)

lemma map_of_to_dict_Product_blank:
  "map_of (to_dict Product_blank) c = (if c \<in> set columns then Some None else None)"
  by (simp add: to_dict_def Product_blank_def columns_def)

lemma find_append_new:
  "\<forall>x \<in> set xs. \<not> P x \<Longrightarrow> P y \<Longrightarrow> find P (xs @ [y]) = Some y"
  by (induction xs) auto

lemma Product_init_columns:
  assumes keys: "set (map fst data) = set columns" and dist: "distinct (map fst data)"
  shows "\<exists>product. Product_init data = Inr product \<and> map_of (to_dict product) = map_of data"
proof -
  let ?p = "update_attributes Product_blank data"
  have init: "Product_init data = Inr ?p"
    using keys by (simp add: Product_init_def Product_kwargs_columns)
  have dom: "dom (map_of data) = set columns"
    using keys by (simp add: dom_map_of_conv_image_fst)
  have "map_of (to_dict ?p) c = map_of data c" for c
  proof (cases "c \<in> set columns")
    case True
    then obtain v where "map_of data c = Some v" using dom by blast
    then show ?thesis
      using True by (simp add: map_of_update_attributes [OF dist] map_add_def restrict_map_def)
  next
    case False
    then have "map_of data c = None" using dom by blast
    then show ?thesis
      using False
      by (simp add: map_of_update_attributes [OF dist] map_add_def restrict_map_def
          map_of_to_dict_Product_blank)
  qed
  then have "map_of (to_dict ?p) = map_of data" by (rule ext)
  with init show ?thesis by blast
qed

lemma add_item_then_get_item:
  assumes keys: "set (map fst data) = set columns" and dist: "distinct (map fst data)"
    and ident: "map_of data ''id'' = Some (Some item_id)"
    and fresh: "Some item_id \<notin> set (map ProductModel.id' tbl)"
  shows "\<exists>item tbl'. add_item tbl data = (Inr (MessageItem ''Item added'' item), tbl')
           \<and> get_item tbl' item_id = Some item \<and> map_of item = map_of data"
proof -
  obtain product where init: "Product_init data = Inr product"
    and same: "map_of (to_dict product) = map_of data"
    using Product_init_columns [OF keys dist] by blast
  have pid: "ProductModel.id' product = Some item_id"
    using id'_of_to_dict [of product] same ident by simp
  have none: "\<forall>row \<in> set tbl. \<not> ProductModel.id' row = Some item_id"
    using fresh by (metis image_eqI set_map)
  have commit: "commit_add tbl product = Inr (tbl @ [product])"
    using pid fresh by (simp add: commit_add_def)
  have found: "find (\<lambda>p. ProductModel.id' p = Some item_id) (tbl @ [product]) = Some product"
    using none pid by (rule find_append_new)
  have "add_item tbl data = (Inr (MessageItem ''Item added'' (to_dict product)), tbl @ [product])"
    using init commit found pid by (simp add: add_item_def refresh_def)
  moreover have "get_item (tbl @ [product]) item_id = Some (to_dict product)"
    using found by (simp add: get_item_def query_first_def)
  ultimately show ?thesis using same by blast
qed

text \<open>For one, the body \<open>widget_columns\<close> is stored as \<open>widget_row\<close> and read back as sent.\<close>

lemma add_item_widget_columns:
  "add_item [] widget_columns = (Inr (MessageItem ''Item added'' widget_columns), [widget_row])
   \<and> get_item [widget_row] (JString ''P1'') = Some widget_columns"
proof -
  have "Product_init widget_columns = Inr widget_row"
    by (simp add: Product_init_def widget_columns_def hasattr_def columns_def setattr_def
        Product_blank_def widget_row_def)
  moreover have "to_dict widget_row = widget_columns"
    by (simp add: to_dict_def widget_row_def widget_columns_def)
  moreover have "ProductModel.id' widget_row = Some (JString ''P1'')"
    by (simp add: widget_row_def)
  ultimately show ?thesis
    by (simp add: add_item_def commit_add_def refresh_def get_item_def query_first_def)
qed

text \<open>
  The client's \<^verbatim>\<open>reorderLevel\<close> and \<^verbatim>\<open>batchNumber\<close> are no columns of the model, and a
  serialised item has the nine columns as its keys, so that no get can return them.
\<close>

lemma client_fields_not_stored:
  "''reorderLevel'' \<notin> set (map fst (to_dict p)) \<and> ''batchNumber'' \<notin> set (map fst (to_dict p))"
  by (simp add: map_fst_to_dict) (simp add: columns_def)

text \<open>
  Claim C1 (create, then get by id, returns the payload field for field) at a payload with
  every field of the client's \<^verbatim>\<open>Product\<close>: the model has no attribute \<^verbatim>\<open>reorderLevel\<close>,
  so \<^verbatim>\<open>Product(**data)\<close> raises \<^verbatim>\<open>TypeError\<close>, nothing is stored, and the get that
  follows finds no row.
\<close>

theorem add_item_raises_on_client_product:
  "add_item [] widget_product = (Inl TypeError, [])
   \<and> get_item (snd (add_item [] widget_product)) (JString ''P1'') = None"
proof -
  have "Product_init widget_product = Inl TypeError"
    by (simp add: Product_init_def widget_product_def hasattr_def columns_def)
  then have "add_item [] widget_product = (Inl TypeError, [])"
    by (simp add: add_item_def)
  then show ?thesis
    by (simp add: get_item_def query_first_def)
qed

subsection \<open>Create under a key that is taken\<close>

text \<open>
  Claim C4 (a create whose id is taken returns an error descriptor instead of raising, and
  leaves the table unchanged) at a table that holds \<open>widget_row\<close> under \<^verbatim>\<open>P1\<close>: the
  table is unchanged, but \<^verbatim>\<open>add_item\<close> has no handler around its commit, and the
  \<^verbatim>\<open>IntegrityError\<close> reaches the caller.
\<close>

theorem add_item_duplicate_id_raises:
  "add_item [widget_row, gadget_row] duplicate_columns =
     (Inl IntegrityError, [widget_row, gadget_row])"
proof -
  have "\<exists>product. Product_init duplicate_columns = Inr product
      \<and> ProductModel.id' product = Some (JString ''P1'')"
    by (simp add: Product_init_def duplicate_columns_def hasattr_def columns_def setattr_def
        Product_blank_def)
  then obtain product where "Product_init duplicate_columns = Inr product"
    and "ProductModel.id' product = Some (JString ''P1'')" by blast
  moreover have "ProductModel.id' widget_row = Some (JString ''P1'')"
    by (simp add: widget_row_def)
  ultimately show ?thesis
    by (simp add: add_item_def commit_add_def)
qed

text \<open>
  The same holds of every body that the constructor accepts and whose key is in the table.
\<close>

lemma add_item_taken_id:
  assumes "Product_init data = Inr product"
    and "ProductModel.id' product \<in> set (map ProductModel.id' tbl)"
  shows "add_item tbl data = (Inl IntegrityError, tbl)"
  using assms by (simp add: add_item_def commit_add_def)

text \<open>
  The corrected service catches the same exception, and returns the error dict with the
  table unchanged.
\<close>

lemma add_item_fixed_duplicate_id:
  assumes "dict_get data ''id'' \<in> set (map ProductModel.id' tbl)"
  shows "add_item_fixed tbl data = (ErrorDict IntegrityError, tbl)"
  using assms by (simp add: add_item_fixed_def commit_add_def Let_def)

subsection \<open>Update\<close>

text \<open>
  When the row is found, the result of \<^verbatim>\<open>update_item\<close> is that of the commit of the
  product after the loop. The key after the loop is the payload's \<^verbatim>\<open>id\<close>, when it has
  one, and the commit returns when that key is the row's own or is non-null and free.
\<close>

lemma update_item_found:
  assumes "query_first tbl item_id = Some product"
  shows "update_item tbl item_id data =
    (case commit_update tbl item_id (update_attributes product data) of
       Inl e \<Rightarrow> (Inl e, tbl)
     | Inr tbl' \<Rightarrow>
         (Inr (MessageItem ''Item updated'' (to_dict (update_attributes product data))), tbl'))"
  using assms by (simp add: update_item_def)

lemma query_first_id:
  "query_first tbl item_id = Some product \<Longrightarrow> ProductModel.id' product = Some item_id"
  by (auto simp add: query_first_def find_Some_iff)

lemma commit_update_result:
  "commit_update tbl item_id product = Inr tbl' \<Longrightarrow>
     tbl' = map (\<lambda>row. if ProductModel.id' row = Some item_id then product else row) tbl"
  by (auto simp add: commit_update_def split: if_splits)

lemma update_attributes_id:
  assumes "distinct (map fst data)"
  shows "ProductModel.id' (update_attributes product data) =
    (case map_of data ''id'' of None \<Rightarrow> ProductModel.id' product | Some k \<Rightarrow> k)"
proof -
  have "''id'' \<in> set columns" by (simp add: columns_def)
  then have "map_of (to_dict (update_attributes product data)) ''id'' =
      (case map_of data ''id'' of None \<Rightarrow> Some (ProductModel.id' product) | Some k \<Rightarrow> Some k)"
    by (simp add: map_of_update_attributes [OF assms] map_add_def restrict_map_def id'_of_to_dict
        split: option.splits)
  then show ?thesis
    by (simp add: id'_of_to_dict split: option.splits)
qed

lemma commit_update_returns_iff:
  "(\<exists>tbl'. commit_update tbl item_id product = Inr tbl') \<longleftrightarrow>
     ProductModel.id' product = Some item_id
     \<or> (ProductModel.id' product \<noteq> None \<and> ProductModel.id' product \<notin> set (map ProductModel.id' tbl))"
  by (simp add: commit_update_def)

text \<open>
  What the update does on a request body over the fields of \<^verbatim>\<open>Product\<close> (a dict, so its
  keys are distinct), for a row found under \<open>item_id\<close>: an update that returns has
  overwritten exactly the columns that the body names, each with the body's value, and has
  left every other column of the row, and every other row, as stored. The update returns
  unless the body carries an \<^verbatim>\<open>id\<close> that is null or the key of another row; then it
  raises and the table is as it was. The body \<^verbatim>\<open>{quantity: v}\<close> changes \<^verbatim>\<open>quantity\<close> only.
\<close>

lemma update_item_overwrites_only_payload_fields:
  assumes found: "query_first tbl item_id = Some product"
    and dist: "distinct (map fst data)"
    and fields: "set (map fst data) \<subseteq> set product_fields"
  shows "((\<exists>r tbl'. update_item tbl item_id data = (Inr r, tbl')) \<longleftrightarrow>
            (case map_of data ''id'' of
               None \<Rightarrow> True
             | Some k \<Rightarrow> k = Some item_id
                 \<or> (k \<noteq> None \<and> k \<notin> set (map ProductModel.id' tbl))))
     \<and> (\<forall>r tbl'. update_item tbl item_id data = (Inr r, tbl') \<longrightarrow>
            (\<exists>product'. r = MessageItem ''Item updated'' (to_dict product')
               \<and> map_of (to_dict product') = map_of (to_dict product) ++ (map_of data |` set columns)
               \<and> tbl' = map (\<lambda>row. if ProductModel.id' row = Some item_id then product' else row) tbl))
     \<and> (\<forall>e tbl'. update_item tbl item_id data = (Inl e, tbl') \<longrightarrow> tbl' = tbl)
     \<and> update_item tbl item_id [(''quantity'', v)] =
          (Inr (MessageItem ''Item updated'' (to_dict (product\<lparr>ProductModel.quantity := v\<rparr>))),
           map (\<lambda>row. if ProductModel.id' row = Some item_id
                       then product\<lparr>ProductModel.quantity := v\<rparr> else row) tbl)"
proof -
  let ?p = "update_attributes product data"
  note upd = update_item_found [OF found]
  have pid: "ProductModel.id' product = Some item_id"
    using found by (rule query_first_id)
  have "(\<exists>r tbl'. update_item tbl item_id data = (Inr r, tbl')) \<longleftrightarrow>
      (\<exists>tbl'. commit_update tbl item_id ?p = Inr tbl')"
    by (cases "commit_update tbl item_id ?p") (simp_all add: upd)
  also have "\<dots> \<longleftrightarrow> ProductModel.id' ?p = Some item_id
      \<or> (ProductModel.id' ?p \<noteq> None \<and> ProductModel.id' ?p \<notin> set (map ProductModel.id' tbl))"
    by (rule commit_update_returns_iff)
  also have "\<dots> \<longleftrightarrow> (case map_of data ''id'' of
               None \<Rightarrow> True
             | Some k \<Rightarrow> k = Some item_id
                 \<or> (k \<noteq> None \<and> k \<notin> set (map ProductModel.id' tbl)))"
    by (simp only: update_attributes_id [OF dist]) (simp add: pid split: option.splits)
  finally have returns: "(\<exists>r tbl'. update_item tbl item_id data = (Inr r, tbl')) \<longleftrightarrow>
            (case map_of data ''id'' of
               None \<Rightarrow> True
             | Some k \<Rightarrow> k = Some item_id
                 \<or> (k \<noteq> None \<and> k \<notin> set (map ProductModel.id' tbl)))" .
  have frame: "\<forall>r tbl'. update_item tbl item_id data = (Inr r, tbl') \<longrightarrow>
      (\<exists>product'. r = MessageItem ''Item updated'' (to_dict product')
         \<and> map_of (to_dict product') = map_of (to_dict product) ++ (map_of data |` set columns)
         \<and> tbl' = map (\<lambda>row. if ProductModel.id' row = Some item_id then product' else row) tbl)"
  proof (intro allI impI)
    fix r tbl'
    assume ok: "update_item tbl item_id data = (Inr r, tbl')"
    then obtain t where c: "commit_update tbl item_id ?p = Inr t"
      by (cases "commit_update tbl item_id ?p") (simp_all add: upd)
    from ok c have "r = MessageItem ''Item updated'' (to_dict ?p)" and "tbl' = t"
      by (simp_all add: upd)
    moreover note commit_update_result [OF c] map_of_update_attributes [OF dist, of product]
    ultimately show "\<exists>product'. r = MessageItem ''Item updated'' (to_dict product')
         \<and> map_of (to_dict product') = map_of (to_dict product) ++ (map_of data |` set columns)
         \<and> tbl' = map (\<lambda>row. if ProductModel.id' row = Some item_id then product' else row) tbl"
      by blast
  qed
  have raise: "\<forall>e tbl'. update_item tbl item_id data = (Inl e, tbl') \<longrightarrow> tbl' = tbl"
    by (auto simp add: upd split: sum.splits)
  have qty: "update_attributes product [(''quantity'', v)] = product\<lparr>ProductModel.quantity := v\<rparr>"
    by (simp add: hasattr_def columns_def setattr_def)
  have example: "update_item tbl item_id [(''quantity'', v)] =
      (Inr (MessageItem ''Item updated'' (to_dict (product\<lparr>ProductModel.quantity := v\<rparr>))),
       map (\<lambda>row. if ProductModel.id' row = Some item_id
                   then product\<lparr>ProductModel.quantity := v\<rparr> else row) tbl)"
  proof -
    have "commit_update tbl item_id (product\<lparr>ProductModel.quantity := v\<rparr>) =
        Inr (map (\<lambda>row. if ProductModel.id' row = Some item_id
                         then product\<lparr>ProductModel.quantity := v\<rparr> else row) tbl)"
      using pid by (simp add: commit_update_def)
    then show ?thesis
      using update_item_found [OF found, of "[(''quantity'', v)]"] by (simp only: qty sum.case)
  qed
  show ?thesis
    using returns frame raise example by (intro conjI)
qed

text \<open>The body \<^verbatim>\<open>{quantity: 5}\<close> on the first of two rows.\<close>

lemma update_item_quantity_example:
  "query_first [widget_row, gadget_row] (JString ''P1'') = Some widget_row
   \<and> distinct (map fst [(''quantity'', Some (JNumber 5))])
   \<and> update_item [widget_row, gadget_row] (JString ''P1'') [(''quantity'', Some (JNumber 5))] =
       (Inr (MessageItem ''Item updated''
          (to_dict (widget_row\<lparr>ProductModel.quantity := Some (JNumber 5)\<rparr>))),
        [widget_row\<lparr>ProductModel.quantity := Some (JNumber 5)\<rparr>, gadget_row])"
proof -
  have found: "query_first [widget_row, gadget_row] (JString ''P1'') = Some widget_row"
    by (simp add: query_first_def widget_row_def)
  have dist: "distinct (map fst [(''quantity'', Some (JNumber 5))])"
    by simp
  have fields: "set (map fst [(''quantity'', Some (JNumber 5))]) \<subseteq> set product_fields"
    by (simp add: product_fields_def)
  have rows: "map (\<lambda>row. if ProductModel.id' row = Some (JString ''P1'')
                          then widget_row\<lparr>ProductModel.quantity := Some (JNumber 5)\<rparr> else row)
                [widget_row, gadget_row] =
      [widget_row\<lparr>ProductModel.quantity := Some (JNumber 5)\<rparr>, gadget_row]"
    by (simp add: widget_row_def gadget_row_def)
  have "update_item [widget_row, gadget_row] (JString ''P1'') [(''quantity'', Some (JNumber 5))] =
       (Inr (MessageItem ''Item updated''
          (to_dict (widget_row\<lparr>ProductModel.quantity := Some (JNumber 5)\<rparr>))),
        [widget_row\<lparr>ProductModel.quantity := Some (JNumber 5)\<rparr>, gadget_row])"
    using update_item_overwrites_only_payload_fields [OF found dist fields, of "Some (JNumber 5)"]
    by (simp only: rows)
  with found dist show ?thesis by (intro conjI)
qed

text \<open>
  Claim C2 (an update overwrites exactly the fields present in the payload and leaves the
  others as stored) at the payload \<^verbatim>\<open>{id: "P2", quantity: 5}\<close> for the row stored under
  \<^verbatim>\<open>P1\<close>, while \<^verbatim>\<open>P2\<close> is the key of another row: the loop sets the key with the other
  attributes, the commit raises \<^verbatim>\<open>IntegrityError\<close>, and \<^verbatim>\<open>quantity\<close>, which the payload
  names, is not overwritten: the row still reads as it was stored, with quantity 10.
\<close>

theorem update_item_taken_id_overwrites_nothing:
  "update_item [widget_row, gadget_row] (JString ''P1'')
      [(''id'', Some (JString ''P2'')), (''quantity'', Some (JNumber 5))] =
     (Inl IntegrityError, [widget_row, gadget_row])
   \<and> get_item (snd (update_item [widget_row, gadget_row] (JString ''P1'')
          [(''id'', Some (JString ''P2'')), (''quantity'', Some (JNumber 5))])) (JString ''P1'') =
       Some widget_columns
   \<and> map_of widget_columns ''quantity'' = Some (Some (JNumber 10))"
proof -
  have found: "query_first [widget_row, gadget_row] (JString ''P1'') = Some widget_row"
    by (simp add: query_first_def widget_row_def)
  have attrs: "update_attributes widget_row
        [(''id'', Some (JString ''P2'')), (''quantity'', Some (JNumber 5))] =
      widget_row\<lparr>ProductModel.id' := Some (JString ''P2''),
                  ProductModel.quantity := Some (JNumber 5)\<rparr>"
    by (simp add: hasattr_def columns_def setattr_def)
  have commit: "commit_update [widget_row, gadget_row] (JString ''P1'')
        (widget_row\<lparr>ProductModel.id' := Some (JString ''P2''),
                     ProductModel.quantity := Some (JNumber 5)\<rparr>) = Inl IntegrityError"
    by (simp add: commit_update_def widget_row_def gadget_row_def)
  have upd: "update_item [widget_row, gadget_row] (JString ''P1'')
      [(''id'', Some (JString ''P2'')), (''quantity'', Some (JNumber 5))] =
     (Inl IntegrityError, [widget_row, gadget_row])"
    by (simp only: update_item_def found option.case attrs commit sum.case)
  have same: "to_dict widget_row = widget_columns"
    by (simp add: to_dict_def widget_row_def widget_columns_def)
  have after: "get_item [widget_row, gadget_row] (JString ''P1'') = Some widget_columns"
    by (simp add: get_item_def found same)
  have stored: "map_of widget_columns ''quantity'' = Some (Some (JNumber 10))"
    by (simp add: widget_columns_def)
  show ?thesis
    using upd after stored by (simp only: snd_conv simp_thms)
qed

text \<open>
  Claim C3 (an update never overwrites the stored id, also when the payload has an
  \<^verbatim>\<open>id\<close> key) at the payload \<^verbatim>\<open>{id: "P9"}\<close> for the row stored under \<^verbatim>\<open>P1\<close>: the
  loop sets every attribute that the product has, the key among them, so the row is
  stored under \<^verbatim>\<open>P9\<close> after the update and a get by \<^verbatim>\<open>P1\<close> finds nothing.
\<close>

theorem update_item_overwrites_id:
  "get_item [widget_row, gadget_row] (JString ''P1'') = Some (to_dict widget_row)
   \<and> update_item [widget_row, gadget_row] (JString ''P1'') [(''id'', Some (JString ''P9''))] =
       (Inr (MessageItem ''Item updated''
          (to_dict (widget_row\<lparr>ProductModel.id' := Some (JString ''P9'')\<rparr>))),
        [widget_row\<lparr>ProductModel.id' := Some (JString ''P9'')\<rparr>, gadget_row])
   \<and> get_item (snd (update_item [widget_row, gadget_row] (JString ''P1'')
          [(''id'', Some (JString ''P9''))])) (JString ''P1'') = None"
proof -
  have found: "query_first [widget_row, gadget_row] (JString ''P1'') = Some widget_row"
    by (simp add: query_first_def widget_row_def)
  have attrs: "update_attributes widget_row [(''id'', Some (JString ''P9''))] =
      widget_row\<lparr>ProductModel.id' := Some (JString ''P9'')\<rparr>"
    by (simp add: hasattr_def columns_def setattr_def)
  have commit: "commit_update [widget_row, gadget_row] (JString ''P1'')
        (widget_row\<lparr>ProductModel.id' := Some (JString ''P9'')\<rparr>) =
      Inr [widget_row\<lparr>ProductModel.id' := Some (JString ''P9'')\<rparr>, gadget_row]"
    by (simp add: commit_update_def widget_row_def gadget_row_def)
  have upd: "update_item [widget_row, gadget_row] (JString ''P1'') [(''id'', Some (JString ''P9''))] =
       (Inr (MessageItem ''Item updated''
          (to_dict (widget_row\<lparr>ProductModel.id' := Some (JString ''P9'')\<rparr>))),
        [widget_row\<lparr>ProductModel.id' := Some (JString ''P9'')\<rparr>, gadget_row])"
    by (simp only: update_item_def found option.case attrs commit sum.case)
  have before: "get_item [widget_row, gadget_row] (JString ''P1'') = Some (to_dict widget_row)"
    by (simp add: get_item_def found)
  have after: "get_item [widget_row\<lparr>ProductModel.id' := Some (JString ''P9'')\<rparr>, gadget_row]
      (JString ''P1'') = None"
    by (simp add: get_item_def query_first_def widget_row_def gadget_row_def)
  show ?thesis
    using before upd after by (simp only: snd_conv simp_thms)
qed

text \<open>
  The loop of the corrected service skips the key, so that no update changes the key of
  any row.
\<close>

lemma setattr_keeps_id:
  "key \<noteq> ''id'' \<Longrightarrow> ProductModel.id' (setattr product key val) = ProductModel.id' product"
  by (simp add: setattr_def)

lemma update_attributes_fixed_keeps_id:
  "ProductModel.id' (update_attributes_fixed product data) = ProductModel.id' product"
  by (induction data arbitrary: product) (auto simp add: setattr_keeps_id)

lemma update_item_fixed_keeps_id:
  "map ProductModel.id' (snd (update_item_fixed tbl item_id data)) = map ProductModel.id' tbl"
proof (cases "query_first tbl item_id")
  case None
  then show ?thesis by (simp add: update_item_fixed_def)
next
  case (Some product)
  let ?p = "update_attributes_fixed product data"
  have pid: "ProductModel.id' ?p = Some item_id"
    using query_first_id [OF Some] by (simp add: update_attributes_fixed_keeps_id)
  then have "snd (update_item_fixed tbl item_id data) =
      map (\<lambda>row. if ProductModel.id' row = Some item_id then ?p else row) tbl"
    using Some by (simp add: update_item_fixed_def commit_update_def)
  then show ?thesis using pid by (simp add: comp_def cong: map_cong)
qed

text \<open>
  So the corrected service overwrites, for every body over the fields of \<^verbatim>\<open>Product\<close>,
  exactly the columns but \<^verbatim>\<open>id\<close> that the body names, and it returns; at the payload
  \<^verbatim>\<open>{id: "P2", quantity: 5}\<close> it sets the quantity of the row and leaves its key.
\<close>

lemma map_of_update_attributes_fixed:
  "distinct (map fst data) \<Longrightarrow>
     map_of (to_dict (update_attributes_fixed p data)) =
       map_of (to_dict p) ++ (map_of data |` (set columns - {''id''}))"
proof (induction data arbitrary: p)
  case Nil
  then show ?case by simp
next
  case (Cons kv data)
  obtain k v where kv: "kv = (k, v)" by (cases kv)
  from Cons.prems kv have d: "distinct (map fst data)" and k: "k \<notin> fst ` set data" by auto
  from k have nk: "map_of data k = None" by (simp add: map_of_eq_None_iff)
  have cons: "map_of (kv # data) = (map_of data)(k \<mapsto> v)" by (simp add: kv)
  show ?case
  proof (cases "k \<in> set columns - {''id''}")
    case True
    then have col: "k \<in> set columns" by simp
    have "update_attributes_fixed p (kv # data) = update_attributes_fixed (setattr p k v) data"
      using True by (simp add: kv hasattr_def)
    then have "map_of (to_dict (update_attributes_fixed p (kv # data))) =
      map_of (to_dict (setattr p k v)) ++ (map_of data |` (set columns - {''id''}))"
      using Cons.IH [OF d, of "setattr p k v"] by (simp only:)
    also have "\<dots> = (map_of (to_dict p))(k \<mapsto> v) ++ (map_of data |` (set columns - {''id''}))"
      by (simp only: map_of_to_dict_setattr [OF col])
    also have "\<dots> = map_of (to_dict p) ++ (map_of (kv # data) |` (set columns - {''id''}))"
      unfolding cons using True nk by (rule overlay_step_in [where n = "map_of data"])
    finally show ?thesis .
  next
    case False
    then have "\<not> (hasattr p k \<and> k \<noteq> ''id'')"
      by (simp add: hasattr_def)
    then have "update_attributes_fixed p (kv # data) = update_attributes_fixed p data"
      by (auto simp add: kv)
    then have "map_of (to_dict (update_attributes_fixed p (kv # data))) =
      map_of (to_dict p) ++ (map_of data |` (set columns - {''id''}))"
      using Cons.IH [OF d, of p] by (simp only:)
    also have "\<dots> = map_of (to_dict p) ++ (map_of (kv # data) |` (set columns - {''id''}))"
      unfolding cons by (rule overlay_step_out [OF False])
    finally show ?thesis .
  qed
qed

lemma update_item_fixed_overwrites_payload_fields:
  assumes found: "query_first tbl item_id = Some product"
    and dist: "distinct (map fst data)"
    and fields: "set (map fst data) \<subseteq> set product_fields"
  shows "\<exists>product'.
      update_item_fixed tbl item_id data =
        (MessageItem ''Item updated'' (to_dict product'),
         map (\<lambda>row. if ProductModel.id' row = Some item_id then product' else row) tbl)
      \<and> map_of (to_dict product') =
          map_of (to_dict product) ++ (map_of data |` (set columns - {''id''}))"
proof -
  let ?p = "update_attributes_fixed product data"
  have "ProductModel.id' ?p = Some item_id"
    using query_first_id [OF found] by (simp add: update_attributes_fixed_keeps_id)
  then have "update_item_fixed tbl item_id data =
      (MessageItem ''Item updated'' (to_dict ?p),
       map (\<lambda>row. if ProductModel.id' row = Some item_id then ?p else row) tbl)"
    using found by (simp add: update_item_fixed_def commit_update_def)
  then show ?thesis
    using map_of_update_attributes_fixed [OF dist, of product] by blast
qed

lemma update_item_fixed_taken_id_example:
  "update_item_fixed [widget_row, gadget_row] (JString ''P1'')
      [(''id'', Some (JString ''P2'')), (''quantity'', Some (JNumber 5))] =
     (MessageItem ''Item updated''
        (to_dict (widget_row\<lparr>ProductModel.quantity := Some (JNumber 5)\<rparr>)),
      [widget_row\<lparr>ProductModel.quantity := Some (JNumber 5)\<rparr>, gadget_row])"
proof -
  have found: "query_first [widget_row, gadget_row] (JString ''P1'') = Some widget_row"
    by (simp add: query_first_def widget_row_def)
  have attrs: "update_attributes_fixed widget_row
        [(''id'', Some (JString ''P2'')), (''quantity'', Some (JNumber 5))] =
      widget_row\<lparr>ProductModel.quantity := Some (JNumber 5)\<rparr>"
    by (simp add: hasattr_def columns_def setattr_def)
  have commit: "commit_update [widget_row, gadget_row] (JString ''P1'')
        (widget_row\<lparr>ProductModel.quantity := Some (JNumber 5)\<rparr>) =
      Inr [widget_row\<lparr>ProductModel.quantity := Some (JNumber 5)\<rparr>, gadget_row]"
    by (simp add: commit_update_def widget_row_def gadget_row_def)
  show ?thesis
    by (simp only: update_item_fixed_def found option.case attrs commit sum.case)
qed

subsection \<open>Delete\<close>

lemma query_first_None_iff:
  "query_first tbl item_id = None \<longleftrightarrow> Some item_id \<notin> set (map ProductModel.id' tbl)"
  by (induction tbl) (auto simp add: query_first_def)

lemma query_first_commit_delete_same:
  "query_first (commit_delete tbl item_id) item_id = None"
  by (simp add: query_first_def commit_delete_def find_None_iff)

lemma query_first_commit_delete_other:
  "other \<noteq> item_id \<Longrightarrow>
     query_first (commit_delete tbl item_id) other = query_first tbl other"
  by (induction tbl) (auto simp add: query_first_def commit_delete_def)

text \<open>
  Claim C5: \<^verbatim>\<open>delete_item\<close> never raises; when a row has the id it removes that row and
  returns \<^verbatim>\<open>Item deleted\<close>, and when no row has the id it returns \<^verbatim>\<open>Item not found\<close>
  and leaves the table as it is. After a delete, a get by the same id finds no row, a
  second delete by the same id returns \<^verbatim>\<open>Item not found\<close> and changes nothing, and a
  get by any other id finds what it found before.
\<close>

theorem delete_item_removes_or_reports:
  "(Some item_id \<in> set (map ProductModel.id' tbl) \<longrightarrow>
       delete_item tbl item_id =
         (Inr (Message ''Item deleted''),
          filter (\<lambda>row. ProductModel.id' row \<noteq> Some item_id) tbl))
   \<and> (Some item_id \<notin> set (map ProductModel.id' tbl) \<longrightarrow>
       delete_item tbl item_id = (Inr (Message ''Item not found''), tbl))
   \<and> get_item (snd (delete_item tbl item_id)) item_id = None
   \<and> delete_item (snd (delete_item tbl item_id)) item_id =
       (Inr (Message ''Item not found''), snd (delete_item tbl item_id))
   \<and> (\<forall>other. other \<noteq> item_id \<longrightarrow>
         get_item (snd (delete_item tbl item_id)) other = get_item tbl other)"
proof (cases "query_first tbl item_id")
  case None
  then have absent: "Some item_id \<notin> set (map ProductModel.id' tbl)"
    by (simp add: query_first_None_iff)
  have del: "delete_item tbl item_id = (Inr (Message ''Item not found''), tbl)"
    using None by (simp add: delete_item_def)
  show ?thesis
    using absent None by (simp add: del get_item_def)
next
  case (Some product)
  then have present: "Some item_id \<in> set (map ProductModel.id' tbl)"
    using query_first_None_iff [of tbl item_id] by simp
  have del: "delete_item tbl item_id = (Inr (Message ''Item deleted''), commit_delete tbl item_id)"
    using Some by (simp add: delete_item_def)
  have again: "delete_item (commit_delete tbl item_id) item_id =
      (Inr (Message ''Item not found''), commit_delete tbl item_id)"
    by (simp add: delete_item_def query_first_commit_delete_same)
  have gone: "get_item (commit_delete tbl item_id) item_id = None"
    by (simp add: get_item_def query_first_commit_delete_same)
  have others: "\<forall>other. other \<noteq> item_id \<longrightarrow>
      get_item (commit_delete tbl item_id) other = get_item tbl other"
    by (simp add: get_item_def query_first_commit_delete_other)
  show ?thesis
    using present again gone others by (simp add: del) (simp add: commit_delete_def)
qed

text \<open>A delete of the first of two rows, and the same delete once more.\<close>

theorem delete_item_removes_or_reports_witness:
  "Some (JString ''P1'') \<in> set (map ProductModel.id' [widget_row, gadget_row])
   \<and> delete_item [widget_row, gadget_row] (JString ''P1'') =
        (Inr (Message ''Item deleted''), [gadget_row])
   \<and> Some (JString ''P1'') \<notin> set (map ProductModel.id' [gadget_row])
   \<and> delete_item [gadget_row] (JString ''P1'') = (Inr (Message ''Item not found''), [gadget_row])
   \<and> get_item [gadget_row] (JString ''P1'') = None"
proof -
  have present: "Some (JString ''P1'') \<in> set (map ProductModel.id' [widget_row, gadget_row])"
    by (simp add: widget_row_def)
  have absent: "Some (JString ''P1'') \<notin> set (map ProductModel.id' [gadget_row])"
    by (simp add: gadget_row_def)
  have rows: "filter (\<lambda>row. ProductModel.id' row \<noteq> Some (JString ''P1''))
      [widget_row, gadget_row] = [gadget_row]"
    by (simp add: widget_row_def gadget_row_def)
  have first: "delete_item [widget_row, gadget_row] (JString ''P1'') =
      (Inr (Message ''Item deleted''), [gadget_row])"
    using delete_item_removes_or_reports [of "JString ''P1''" "[widget_row, gadget_row]"] present
    by (simp only: rows)
  have second: "delete_item [gadget_row] (JString ''P1'') =
      (Inr (Message ''Item not found''), [gadget_row])"
    using delete_item_removes_or_reports [of "JString ''P1''" "[gadget_row]"] absent
    by blast
  have "get_item (snd (delete_item [widget_row, gadget_row] (JString ''P1''))) (JString ''P1'') = None"
    using delete_item_removes_or_reports [of "JString ''P1''" "[widget_row, gadget_row]"]
    by blast
  then have gone: "get_item [gadget_row] (JString ''P1'') = None"
    by (simp only: first snd_conv)
  show ?thesis
    using present first absent second gone by (intro conjI)
qed

subsection \<open>The primary key\<close>

text \<open>
  Every method keeps the constraint of the primary key: a commit that would break it is
  the one that raises.
\<close>

lemma commit_add_primary_key_ok:
  "primary_key_ok tbl \<Longrightarrow> commit_add tbl product = Inr tbl' \<Longrightarrow> primary_key_ok tbl'"
  by (auto simp add: primary_key_ok_def commit_add_def split: if_splits)

lemma commit_delete_primary_key_ok:
  "primary_key_ok tbl \<Longrightarrow> primary_key_ok (commit_delete tbl item_id)"
  by (auto simp add: primary_key_ok_def commit_delete_def distinct_map_filter)

lemma replaced_ids:
  "map ProductModel.id' (map (\<lambda>row. if ProductModel.id' row = k then product else row) tbl) =
     map (\<lambda>i. if i = k then ProductModel.id' product else i) (map ProductModel.id' tbl)"
  by (induction tbl) auto

lemma inj_on_replace:
  "j = k \<or> j \<notin> S \<Longrightarrow> inj_on (\<lambda>i. if i = k then j else i) S"
  by (auto simp add: inj_on_def)

lemma distinct_map_inj_on:
  "distinct xs \<Longrightarrow> inj_on f (set xs) \<Longrightarrow> distinct (map f xs)"
  by (simp add: distinct_map)

lemma commit_update_primary_key_ok:
  assumes ok: "primary_key_ok tbl" and c: "commit_update tbl item_id product = Inr tbl'"
  shows "primary_key_ok tbl'"
proof -
  let ?ids = "map ProductModel.id' tbl"
  let ?f = "\<lambda>i. if i = Some item_id then ProductModel.id' product else i"
  have ids: "map ProductModel.id' tbl' = map ?f ?ids"
    using commit_update_result [OF c] by (simp only: replaced_ids)
  have fresh: "ProductModel.id' product = Some item_id \<or>
      (ProductModel.id' product \<noteq> None \<and> ProductModel.id' product \<notin> set ?ids)"
    using c by (auto simp add: commit_update_def split: if_splits)
  then have "ProductModel.id' product = Some item_id \<or> ProductModel.id' product \<notin> set ?ids"
    by blast
  then have inj: "inj_on ?f (set ?ids)"
    by (rule inj_on_replace)
  have "distinct ?ids"
    using ok by (simp only: primary_key_ok_def)
  then have "distinct (map ?f ?ids)"
    using inj by (rule distinct_map_inj_on)
  moreover have "None \<notin> set (map ?f ?ids)"
    using ok fresh by (auto simp add: primary_key_ok_def split: if_splits)
  ultimately show ?thesis
    unfolding primary_key_ok_def ids by simp
qed

lemma methods_keep_primary_key:
  assumes "primary_key_ok tbl"
  shows "primary_key_ok (snd (add_item tbl data))"
    and "primary_key_ok (snd (update_item tbl item_id data))"
    and "primary_key_ok (snd (delete_item tbl item_id))"
proof -
  show "primary_key_ok (snd (add_item tbl data))"
    using assms commit_add_primary_key_ok [OF assms]
    by (auto simp add: add_item_def split: sum.splits)
  show "primary_key_ok (snd (update_item tbl item_id data))"
    using assms commit_update_primary_key_ok [OF assms]
    by (auto simp add: update_item_def split: sum.splits option.splits)
  show "primary_key_ok (snd (delete_item tbl item_id))"
    using assms commit_delete_primary_key_ok [OF assms]
    by (auto simp add: delete_item_def split: option.splits)
qed

section \<open>Properties of the client\<close>

subsection \<open>Low stock\<close>

text \<open>
  Claim C8: a product is in the low-stock set of the dashboard exactly when it is listed and
  its quantity is at most its reorder level; a listed product with
  \<open>quantity = reorderLevel\<close> is in the set, and one with \<open>quantity = reorderLevel + 1\<close>
  is not.
\<close>

theorem lowStockItems_at_reorderLevel:
  "(p \<in> set (lowStockItems prods) \<longleftrightarrow> p \<in> set prods \<and> quantity p \<le> reorderLevel p)
   \<and> (p \<in> set prods \<and> quantity p = reorderLevel p \<longrightarrow> p \<in> set (lowStockItems prods))
   \<and> (quantity p = reorderLevel p + 1 \<longrightarrow> p \<notin> set (lowStockItems prods))"
  by (simp add: lowStockItems_def)

text \<open>The two sample products sit on either side of the boundary.\<close>

theorem lowStockItems_at_reorderLevel_witness:
  "lowStockItems [whey, zinc] = [whey] \<and> whey \<in> set [whey, zinc]
   \<and> quantity whey = reorderLevel whey \<and> quantity zinc = reorderLevel zinc + 1"
  using lowStockItems_at_reorderLevel [of whey "[whey, zinc]"]
    lowStockItems_at_reorderLevel [of zinc "[whey, zinc]"]
  by (simp add: lowStockItems_def whey_def zinc_def)

subsection \<open>Expiring soon\<close>








text \<open>A product whose expiration date is invalid is not in the set.\<close>

lemma expiringSoon_invalid_date:
  "getTime (expirationDate p) = None \<Longrightarrow> p \<notin> set (expiringSoon getTime today prods)"
  by (simp add: expiringSoon_def)

subsection \<open>The update handler\<close>

text \<open>
  Claim C10: when no entry of the list has the id of the updated product, the update
  handler leaves the state as it is; for every input the list keeps its length and the
  ids of its entries in their order, and each position holds either its former entry or,
  where the id matches, the updated product.
\<close>

theorem handleUpdateProduct_keeps_shape:
  "((\<forall>p \<in> set (products app). id' p \<noteq> id' updatedProduct) \<longrightarrow>
       handleUpdateProduct app updatedProduct = (app, []))
   \<and> length (products (fst (handleUpdateProduct app updatedProduct))) = length (products app)
   \<and> map id' (products (fst (handleUpdateProduct app updatedProduct))) = map id' (products app)
   \<and> (\<forall>i < length (products app).
         products (fst (handleUpdateProduct app updatedProduct)) ! i =
           (if id' (products app ! i) = id' updatedProduct then updatedProduct
            else products app ! i))"
proof -
  let ?f = "\<lambda>p. if id' p = id' updatedProduct then updatedProduct else p"
  have same: "(\<forall>p \<in> set (products app). id' p \<noteq> id' updatedProduct) \<longrightarrow>
      map ?f (products app) = products app"
    by (simp add: map_idI)
  have ids: "map id' (map ?f (products app)) = map id' (products app)"
    by (induction "products app") auto
  show ?thesis
    using same ids by (simp add: handleUpdateProduct_def)
qed

text \<open>An update under an id that is not listed, and one under the id of \<open>zinc\<close>.\<close>

theorem handleUpdateProduct_keeps_shape_witness:
  "handleUpdateProduct app_two (zinc\<lparr>id' := ''3''\<rparr>) = (app_two, [])
   \<and> products (fst (handleUpdateProduct app_two (zinc\<lparr>quantity := 7\<rparr>))) = [whey, zinc\<lparr>quantity := 7\<rparr>]
   \<and> length (products (fst (handleUpdateProduct app_two (zinc\<lparr>quantity := 7\<rparr>)))) = 2"
proof -
  have none: "\<forall>p \<in> set (products app_two). id' p \<noteq> id' (zinc\<lparr>id' := ''3''\<rparr>)"
    by (simp add: app_two_def whey_def zinc_def)
  have "handleUpdateProduct app_two (zinc\<lparr>id' := ''3''\<rparr>) = (app_two, [])"
    using handleUpdateProduct_keeps_shape [of app_two "zinc\<lparr>id' := ''3''\<rparr>"] none by blast
  moreover have "products (fst (handleUpdateProduct app_two (zinc\<lparr>quantity := 7\<rparr>))) =
      [whey, zinc\<lparr>quantity := 7\<rparr>]"
    by (simp add: handleUpdateProduct_def app_two_def whey_def zinc_def)
  moreover have "length (products (fst (handleUpdateProduct app_two (zinc\<lparr>quantity := 7\<rparr>)))) = 2"
    using handleUpdateProduct_keeps_shape [of app_two "zinc\<lparr>quantity := 7\<rparr>"]
    by (simp add: app_two_def)
  ultimately show ?thesis by simp
qed

subsection \<open>The delete handler\<close>

text \<open>
  Claim C6 (the entry stays in the list until the backend confirms the deletion) at the
  list of the two sample products: \<^verbatim>\<open>handleDeleteProduct\<close> removes the entry at once and
  issues no request, so no response of the backend takes part in the removal.
\<close>

theorem handleDeleteProduct_removes_without_fetch:
  "handleDeleteProduct app_two ''1'' = (app_two\<lparr>products := [zinc]\<rparr>, [])"
  by (simp add: handleDeleteProduct_def app_two_def whey_def zinc_def)

text \<open>
  The handler of the delete guide keeps the state as it is unless the backend answered
  with \<^verbatim>\<open>response.ok\<close>.
\<close>

lemma handleDeleteProduct_api_waits:
  "result \<noteq> Response True \<Longrightarrow> fst (handleDeleteProduct_api app ident result) = app"
  by (cases result) (auto simp add: handleDeleteProduct_api_def Let_def)

subsection \<open>The add handler\<close>

text \<open>
  Claim C7 (a create assigns an id, appends the product, persists it to the backend and
  takes the append back when the request fails) at the list of the two sample products:
  \<^verbatim>\<open>handleAddProduct\<close> assigns the digits of the clock as id and appends the product,
  but it issues no request, so the append is never confirmed and never taken back.
\<close>

theorem handleAddProduct_appends_without_fetch:
  "handleAddProduct 1762128000000 app_two omega =
     (app_two\<lparr>products := [whey, zinc,
        \<lparr>name = ''Omega 3'', category = ''Oils'', quantity = 5, unit = ''bottles'',
         reorderLevel = 10, expirationDate = ''2025-12-31'', batchNumber = ''B-300'',
         supplier = ''SeaCo'', price = 15, sku = ''OM-3'', id' = ''1762128000000''\<rparr>],
        isAddModalOpen := False\<rparr>, [])"
proof -
  have "toString 1762128000000 = ''1762128000000''"
    by (simp add: toString.simps)
  then show ?thesis
    by (simp add: handleAddProduct_def app_two_def omega_def Let_def)
qed

end
